theory Spec2Isabelle
  imports Complex_Main "HOL-Library.Sublist"
begin

section \<open>JSON values, strings and HTTP responses\<close>

text \<open>
  The handlers of \<^verbatim>\<open>api_server.py\<close> and \<^verbatim>\<open>tests/mock_api_server.py\<close> answer with
  Python dict literals serialised as JSON. A dict literal is an association list in the
  order it is written. Every quantity, price and total of the literals is a dyadic
  rational, hence an exact binary floating point value, and so are the products and sums
  taken of them below; numbers are modelled as rationals.
\<close>

datatype json =
    JNum rat
  | JStr string
  | JArr "json list"
  | JObj "(string \<times> json) list"

fun get :: "string \<Rightarrow> json \<Rightarrow> json option" where
  "get k (JObj kvs) = map_of kvs k"
| "get k (JNum v) = None"
| "get k (JStr v) = None"
| "get k (JArr v) = None"

fun has_key :: "string \<Rightarrow> json \<Rightarrow> bool" where
  "has_key k (JObj kvs) = (map_of kvs k \<noteq> None)"
| "has_key k (JNum v) = False"
| "has_key k (JStr v) = False"
| "has_key k (JArr v) = False"

fun get_num :: "string \<Rightarrow> json \<Rightarrow> rat option" where
  "get_num k j = (case get k j of Some (JNum v) \<Rightarrow> Some v | _ \<Rightarrow> None)"

fun get_str :: "string \<Rightarrow> json \<Rightarrow> string option" where
  "get_str k j = (case get k j of Some (JStr v) \<Rightarrow> Some v | _ \<Rightarrow> None)"

fun get_arr :: "string \<Rightarrow> json \<Rightarrow> json list option" where
  "get_arr k j = (case get k j of Some (JArr v) \<Rightarrow> Some v | _ \<Rightarrow> None)"

fun is_obj :: "json \<Rightarrow> bool" where
  "is_obj (JObj kvs) = True"
| "is_obj (JNum v) = False"
| "is_obj (JStr v) = False"
| "is_obj (JArr v) = False"

text \<open>Python's \<^verbatim>\<open>needle in haystack\<close> on strings: a contiguous occurrence.\<close>

fun str_in :: "string \<Rightarrow> string \<Rightarrow> bool" where
  "str_in n [] = (n = [])"
| "str_in n (c # cs) = (prefix n (c # cs) \<or> str_in n cs)"

text \<open>Python's \<^verbatim>\<open>s.endswith(suf)\<close> and \<^verbatim>\<open>s.startswith(pre)\<close>.\<close>

definition endswith :: "string \<Rightarrow> string \<Rightarrow> bool" where
  "endswith s suf = prefix (rev suf) (rev s)"

definition startswith :: "string \<Rightarrow> string \<Rightarrow> bool" where
  "startswith s pre = prefix pre s"

record http_response =
  status :: nat
  headers :: "(string \<times> string) list"
  body :: json

section \<open>The mock server (tests/mock\_api\_server.py)\<close>

text \<open>
  \<^verbatim>\<open>_send_json_response\<close> writes one response (status line, four headers, the JSON body)
  to the connection. The connection is the list of responses written so far.
\<close>

definition send_json_response ::
  "nat \<Rightarrow> json \<Rightarrow> http_response list \<Rightarrow> http_response list" where
  "send_json_response st data wfile =
     wfile @ [\<lparr>status = st,
               headers = [(''Content-type'', ''application/json''),
                          (''Access-Control-Allow-Origin'', ''*''),
                          (''Access-Control-Allow-Methods'', ''GET, POST, PUT, OPTIONS''),
                          (''Access-Control-Allow-Headers'', ''Content-Type, Authorization'')],
               body = data\<rparr>]"

definition mock_invoice_payload :: json where
  "mock_invoice_payload =
     JObj [(''data'', JObj [
       (''InvoiceId'', JStr ''INV-2026-001''),
       (''VendorName'', JStr ''Test Customer''),
       (''InvoiceDate'', JStr ''2026-01-29''),
       (''DueDate'', JStr ''2026-02-28''),
       (''BillingAddressRecipient'', JStr ''Test Customer''),
       (''ShippingAddress'', JStr ''123 Test St''),
       (''Currency'', JStr ''USD''),
       (''SubTotal'', JNum 200.00),
       (''ShippingCost'', JNum 15.00),
       (''Tax'', JNum 35.00),
       (''InvoiceTotal'', JNum 250.00),
       (''Items'', JArr [
          JObj [(''description'', JStr ''Test Item 1''),
                (''category'', JStr ''Electronics''),
                (''quantity'', JNum 2),
                (''rate'', JNum 100.00),
                (''amount'', JNum 200.00)]])])]"

definition mock_po_payload :: json where
  "mock_po_payload =
     JObj [(''po_number'', JStr ''PO-2026-00001''),
           (''date'', JStr ''2026-01-29''),
           (''delivery_date'', JStr ''2026-02-15''),
           (''supplier_name'', JStr ''ABC Supplier''),
           (''company_name'', JStr ''My Company''),
           (''currency'', JStr ''USD''),
           (''total_amount'', JNum 292.50),
           (''status'', JStr ''Draft''),
           (''items'', JArr [
              JObj [(''item_code'', JStr ''ITEM-001''),
                    (''item_name'', JStr ''Steel Rod''),
                    (''description'', JStr ''Steel Rod''),
                    (''quantity'', JNum 10),
                    (''unit_price'', JNum 25.00),
                    (''total'', JNum 250.00)]])]"

definition submit_payload :: json where
  "submit_payload = JObj [(''data'', JObj [(''name'', JStr ''Submitted''), (''docstatus'', JNum 1)])]"

definition sinv_created_payload :: json where
  "sinv_created_payload =
     JObj [(''data'', JObj [(''name'', JStr ''SINV-2026-00001''), (''docstatus'', JNum 0)])]"

definition po_created_payload :: json where
  "po_created_payload =
     JObj [(''data'', JObj [(''name'', JStr ''PO-2026-00001''), (''docstatus'', JNum 0)])]"

definition entity_created_payload :: json where
  "entity_created_payload = JObj [(''data'', JObj [(''name'', JStr ''Created'')])]"

definition empty_payload :: json where
  "empty_payload = JObj [(''data'', JObj [])]"

text \<open>
  \<^verbatim>\<open>http.server\<close> splits the request line on whitespace and answers 400 itself unless the
  line has two or three words, so the path of a request that reaches a handler is not
  empty and holds no whitespace character (those of Python's \<^verbatim>\<open>str.split\<close> in Latin-1).
\<close>

definition whitespace :: string where
  "whitespace = [CHR '' '', CHR 0x09, CHR 0x0A, CHR 0x0B, CHR 0x0C, CHR 0x0D,
                 CHR 0x1C, CHR 0x1D, CHR 0x1E, CHR 0x1F, CHR 0x85, CHR 0xA0]"

definition request_target :: "string \<Rightarrow> bool" where
  "request_target p = (p \<noteq> [] \<and> list_all (\<lambda>c. \<not> List.member whitespace c) p)"

definition do_POST :: "string \<Rightarrow> http_response list \<Rightarrow> http_response list" where
  "do_POST path wfile =
     (if str_in ''/upload/invoice'' path then
        send_json_response 200 mock_invoice_payload wfile
      else if str_in ''/upload/po'' path then
        send_json_response 200 mock_po_payload wfile
      else if str_in ''frappe.client.submit'' path \<or> str_in ''submit'' path then
        send_json_response 200 submit_payload wfile
      else if str_in ''Sales Invoice'' path \<or> str_in ''Sales%20Invoice'' path then
        send_json_response 200 sinv_created_payload wfile
      else if str_in ''Purchase Order'' path \<or> str_in ''Purchase%20Order'' path then
        send_json_response 200 po_created_payload wfile
      else if str_in ''/Customer'' path \<or> str_in ''/Item'' path
              \<or> str_in ''/Company'' path \<or> str_in ''/Supplier'' path then
        send_json_response 200 entity_created_payload wfile
      else
        send_json_response 200 empty_payload wfile)"

definition do_GET :: "string \<Rightarrow> http_response list \<Rightarrow> http_response list" where
  "do_GET path wfile =
     (if str_in ''/Company/'' path then
        send_json_response 200
          (JObj [(''data'', JObj [(''name'', JStr ''DEMO''), (''default_currency'', JStr ''USD'')])])
          wfile
      else if str_in ''/Customer/'' path \<or> str_in ''/Item/'' path
              \<or> str_in ''/Supplier/'' path then
        send_json_response 404 (JObj [(''exc'', JStr ''Not Found'')]) wfile
      else
        send_json_response 200 (JObj [(''data'', JObj [])]) wfile)"

definition do_PUT :: "string \<Rightarrow> http_response list \<Rightarrow> http_response list" where
  "do_PUT path wfile =
     (if str_in ''SINV-'' path \<or> str_in ''PO-'' path then
        (let doc_name = (if str_in ''SINV-'' path then ''SINV-2026-00001'' else ''PO-2026-00001'')
         in send_json_response 200
              (JObj [(''data'', JObj [(''name'', JStr doc_name), (''docstatus'', JNum 1)])]) wfile)
      else
        send_json_response 200 (JObj [(''data'', JObj [])]) wfile)"

section \<open>The Flask server (api\_server.py)\<close>

text \<open>
  \<^verbatim>\<open>request.files\<close> maps the field name of each uploaded part to the part; the handlers
  read only the part's \<^verbatim>\<open>filename\<close>, always a string. Reading \<^verbatim>\<open>request.files\<close> parses
  the body, and raises \<^verbatim>\<open>RequestEntityTooLarge\<close> when the body is longer than
  \<^verbatim>\<open>MAX_CONTENT_LENGTH\<close>, 16 MB; Flask answers that exception with status 413.
  \<^verbatim>\<open>file.save(filepath)\<close> opens the path for writing and raises an \<^verbatim>\<open>OSError\<close> when the
  file system refuses, as it does for a path in a directory that does not exist; the
  handlers catch nothing, and Flask answers an unhandled exception with status 500. The
  file system is what it lets be opened for writing together with the paths written so
  far. The two readings of the clock (\<^verbatim>\<open>strftime('%Y%m%d_%H%M%S')\<close> and
  \<^verbatim>\<open>strftime("%Y-%m-%d")\<close>) are parameters.
\<close>

datatype exn = RequestEntityTooLarge | OSError

record request =
  content_length :: nat
  files :: "(string \<times> string) list"

record file_system =
  can_open :: "string \<Rightarrow> bool"
  written :: "string list"

definition UPLOAD_FOLDER :: string where
  "UPLOAD_FOLDER = ''uploads''"

definition MAX_CONTENT_LENGTH :: nat where
  "MAX_CONTENT_LENGTH = 16 * 1024 * 1024"

definition request_files :: "request \<Rightarrow> exn + (string \<times> string) list" where
  "request_files req =
     (if MAX_CONTENT_LENGTH < content_length req then Inl RequestEntityTooLarge
      else Inr (files req))"

definition file_save :: "file_system \<Rightarrow> string \<Rightarrow> exn + file_system" where
  "file_save fs filepath =
     (if can_open fs filepath then Inr (fs\<lparr>written := written fs @ [filepath]\<rparr>)
      else Inl OSError)"

definition jsonify :: "json \<Rightarrow> nat \<Rightarrow> http_response" where
  "jsonify data st = \<lparr>status = st, headers = [(''Content-Type'', ''application/json'')], body = data\<rparr>"


definition invoice_mock_data :: "string \<Rightarrow> string \<Rightarrow> json" where
  "invoice_mock_data today filename =
     JObj [(''confidence'', JNum 0.85),
           (''data'', JObj [
              (''InvoiceId'', JStr ''INV-2026-001''),
              (''VendorName'', JStr ''Sample Vendor Inc''),
              (''InvoiceDate'', JStr today),
              (''BillingAddressRecipient'', JStr ''John Doe''),
              (''ShippingAddress'', JStr ''123 Main St, City, State 12345''),
              (''SubTotal'', JNum 1000.00),
              (''ShippingCost'', JNum 50.00),
              (''InvoiceTotal'', JNum 1100.00),
              (''Tax'', JNum 50.00),
              (''Items'', JArr [
                 JObj [(''description'', JStr ''Sample Product 1''),
                       (''category'', JStr ''Category A''),
                       (''quantity'', JNum 2),
                       (''rate'', JNum 300.00),
                       (''amount'', JNum 600.00)],
                 JObj [(''description'', JStr ''Sample Product 2''),
                       (''category'', JStr ''Category B''),
                       (''quantity'', JNum 1),
                       (''rate'', JNum 400.00),
                       (''amount'', JNum 400.00)]])]),
           (''predictionTime'', JNum 2.5),
           (''filename'', JStr filename)]"

definition po_mock_data :: "string \<Rightarrow> string \<Rightarrow> json" where
  "po_mock_data today filename =
     JObj [(''po_number'', JStr ''PO-2026-001''),
           (''date'', JStr today),
           (''delivery_date'', JStr ''2026-02-15''),
           (''supplier_name'', JStr ''ABC Suppliers Inc''),
           (''company_name'', JStr ''My Company''),
           (''total_amount'', JNum 1520.00),
           (''status'', JStr ''Pending''),
           (''items'', JArr [
              JObj [(''description'', JStr ''Ergonomic Office Chair''),
                    (''quantity'', JNum 5),
                    (''unit_price'', JNum 150.00),
                    (''total'', JNum 750.00)],
              JObj [(''description'', JStr ''Standing Desk - Adjustable''),
                    (''quantity'', JNum 3),
                    (''unit_price'', JNum 250.00),
                    (''total'', JNum 750.00)],
              JObj [(''description'', JStr ''Monitor Arm Mount''),
                    (''quantity'', JNum 4),
                    (''unit_price'', JNum 80.00),
                    (''total'', JNum 320.00)]]),
           (''filename'', JStr filename)]"

definition upload_invoice ::
  "string \<Rightarrow> string \<Rightarrow> request \<Rightarrow> file_system \<Rightarrow> exn + http_response \<times> file_system" where
  "upload_invoice stamp today req fs =
     (case request_files req of
        Inl e \<Rightarrow> Inl e
      | Inr parts \<Rightarrow>
          (case map_of parts ''file'' of
             None \<Rightarrow> Inr (jsonify (JObj [(''error'', JStr ''No file provided'')]) 400, fs)
           | Some file_filename \<Rightarrow>
               if file_filename = [] then
                 Inr (jsonify (JObj [(''error'', JStr ''No file selected'')]) 400, fs)
               else if \<not> endswith file_filename ''.pdf'' then
                 Inr (jsonify (JObj [(''error'', JStr ''Only PDF files are accepted'')]) 400, fs)
               else
                 (let filename = ''invoice_'' @ stamp @ ''_'' @ file_filename;
                      filepath = UPLOAD_FOLDER @ ''/'' @ filename
                  in case file_save fs filepath of
                       Inl e \<Rightarrow> Inl e
                     | Inr fs' \<Rightarrow> Inr (jsonify (invoice_mock_data today filename) 200, fs'))))"

definition upload_po ::
  "string \<Rightarrow> string \<Rightarrow> request \<Rightarrow> file_system \<Rightarrow> exn + http_response \<times> file_system" where
  "upload_po stamp today req fs =
     (case request_files req of
        Inl e \<Rightarrow> Inl e
      | Inr parts \<Rightarrow>
          (case map_of parts ''file'' of
             None \<Rightarrow> Inr (jsonify (JObj [(''error'', JStr ''No file provided'')]) 400, fs)
           | Some file_filename \<Rightarrow>
               if file_filename = [] then
                 Inr (jsonify (JObj [(''error'', JStr ''No file selected'')]) 400, fs)
               else if \<not> endswith file_filename ''.pdf'' then
                 Inr (jsonify (JObj [(''error'', JStr ''Only PDF files are accepted'')]) 400, fs)
               else
                 (let filename = ''po_'' @ stamp @ ''_'' @ file_filename;
                      filepath = UPLOAD_FOLDER @ ''/'' @ filename
                  in case file_save fs filepath of
                       Inl e \<Rightarrow> Inl e
                     | Inr fs' \<Rightarrow> Inr (jsonify (po_mock_data today filename) 200, fs'))))"

text \<open>
  The status a client sees: that of the returned response, 413 for
  \<^verbatim>\<open>RequestEntityTooLarge\<close>, an HTTP exception of its own status, and 500 for any other
  exception.
\<close>

fun served_status :: "exn + http_response \<times> file_system \<Rightarrow> nat" where
  "served_status (Inl RequestEntityTooLarge) = 413"
| "served_status (Inl OSError) = 500"
| "served_status (Inr (r, fs)) = status r"

text \<open>
  Python's \<^verbatim>\<open>os.path.dirname\<close> on POSIX paths, and a file system as it is once the
  module is loaded and has made the directory \<^verbatim>\<open>uploads\<close> (lines 15 to 17): a path can be
  opened for writing when its directory is \<^verbatim>\<open>uploads\<close>, the one directory of the server,
  and nothing has been written yet.
\<close>

definition dirname :: "string \<Rightarrow> string" where
  "dirname p =
     (let head = rev (dropWhile (\<lambda>c. c \<noteq> CHR ''/'') (rev p))
      in if head \<noteq> [] \<and> \<not> list_all (\<lambda>c. c = CHR ''/'') head
         then rev (dropWhile (\<lambda>c. c = CHR ''/'') (rev head))
         else head)"

definition in_upload_folder :: "string \<Rightarrow> bool" where
  "in_upload_folder p = (dirname p = UPLOAD_FOLDER)"

definition fresh_file_system :: file_system where
  "fresh_file_system = \<lparr>can_open = in_upload_folder, written = []\<rparr>"


section \<open>The derived-field equations and the response schema\<close>

text \<open>
  The equations of the specification, as checks on an extraction body: rounding to two
  decimal places, the line equations, the subtotal and the totals.
\<close>

definition round2 :: "rat \<Rightarrow> rat" where
  "round2 x = of_int (round (x * 100)) / 100"

definition field_sum :: "string \<Rightarrow> json list \<Rightarrow> rat" where
  "field_sum k its = sum_list (map (\<lambda>it. case get_num k it of Some v \<Rightarrow> v | None \<Rightarrow> 0) its)"

definition invoice_item_ok :: "json \<Rightarrow> bool" where
  "invoice_item_ok it =
     (case get_num ''quantity'' it of None \<Rightarrow> False | Some q \<Rightarrow>
      case get_num ''rate'' it of None \<Rightarrow> False | Some r \<Rightarrow>
      case get_num ''amount'' it of None \<Rightarrow> False | Some a \<Rightarrow> a = round2 (q * r))"

definition invoice_equations :: "json \<Rightarrow> bool" where
  "invoice_equations d =
     (case get_arr ''Items'' d of None \<Rightarrow> False | Some its \<Rightarrow>
      case get_num ''SubTotal'' d of None \<Rightarrow> False | Some st \<Rightarrow>
      case get_num ''ShippingCost'' d of None \<Rightarrow> False | Some sh \<Rightarrow>
      case get_num ''Tax'' d of None \<Rightarrow> False | Some tx \<Rightarrow>
      case get_num ''InvoiceTotal'' d of None \<Rightarrow> False | Some tot \<Rightarrow>
        list_all invoice_item_ok its \<and>
        st = round2 (field_sum ''amount'' its) \<and>
        tot = round2 (st + sh + tx))"

definition po_item_ok :: "json \<Rightarrow> bool" where
  "po_item_ok it =
     (case get_num ''quantity'' it of None \<Rightarrow> False | Some q \<Rightarrow>
      case get_num ''unit_price'' it of None \<Rightarrow> False | Some u \<Rightarrow>
      case get_num ''total'' it of None \<Rightarrow> False | Some t \<Rightarrow> t = round2 (q * u))"

definition po_items_ok :: "json \<Rightarrow> bool" where
  "po_items_ok d = (case get_arr ''items'' d of None \<Rightarrow> False | Some its \<Rightarrow> list_all po_item_ok its)"

definition po_total_ok :: "json \<Rightarrow> bool" where
  "po_total_ok d =
     (case get_arr ''items'' d of None \<Rightarrow> False | Some its \<Rightarrow>
      case get_num ''total_amount'' d of None \<Rightarrow> False | Some t \<Rightarrow>
        t = round2 (field_sum ''total'' its))"

definition po_equations :: "json \<Rightarrow> bool" where
  "po_equations d = (po_items_ok d \<and> po_total_ok d)"

text \<open>The field names of the raw-extraction schema, as the specification enumerates them.\<close>

definition invoice_schema_fields :: "string list" where
  "invoice_schema_fields =
     [''InvoiceId'', ''VendorName'', ''InvoiceDate'', ''BillingAddressRecipient'',
      ''ShippingAddress'', ''SubTotal'', ''ShippingCost'', ''InvoiceTotal'', ''Tax'', ''Items'']"

definition invoice_item_fields :: "string list" where
  "invoice_item_fields = [''description'', ''category'', ''quantity'', ''rate'', ''amount'']"

definition po_schema_fields :: "string list" where
  "po_schema_fields =
     [''po_number'', ''date'', ''delivery_date'', ''supplier_name'', ''company_name'',
      ''total_amount'', ''status'', ''items'']"

definition po_item_fields :: "string list" where
  "po_item_fields = [''description'', ''quantity'', ''unit_price'', ''total'']"

definition holds_fields :: "string list \<Rightarrow> json \<Rightarrow> bool" where
  "holds_fields ks j = (is_obj j \<and> list_all (\<lambda>k. has_key k j) ks)"

definition holds_invoice_schema :: "json \<Rightarrow> bool" where
  "holds_invoice_schema d =
     (holds_fields invoice_schema_fields d \<and>
      (case get_arr ''Items'' d of None \<Rightarrow> False
       | Some its \<Rightarrow> list_all (holds_fields invoice_item_fields) its))"

definition holds_po_schema :: "json \<Rightarrow> bool" where
  "holds_po_schema d =
     (holds_fields po_schema_fields d \<and>
      (case get_arr ''items'' d of None \<Rightarrow> False
       | Some its \<Rightarrow> list_all (holds_fields po_item_fields) its))"

text \<open>
  The shape the specification gives a 200 response of an upload endpoint: a \<^verbatim>\<open>filename\<close>
  field and a \<^verbatim>\<open>data\<close> object holding the schema fields.
\<close>

definition invoice_response_shape :: "json \<Rightarrow> bool" where
  "invoice_response_shape b =
     (has_key ''filename'' b \<and>
      (case get ''data'' b of None \<Rightarrow> False | Some d \<Rightarrow> holds_invoice_schema d))"

definition po_response_shape :: "json \<Rightarrow> bool" where
  "po_response_shape b =
     (has_key ''filename'' b \<and>
      (case get ''data'' b of None \<Rightarrow> False | Some d \<Rightarrow> holds_po_schema d))"

section \<open>The create-then-submit contract and the order of the POST branches\<close>

text \<open>
  The replies of the document system, as the specification describes them: a created
  document is \<^verbatim>\<open>{name, docstatus: 0}\<close> with a prefixed name, a submitted one is
  \<^verbatim>\<open>{name, docstatus: 1}\<close>, both under \<^verbatim>\<open>data\<close>.
\<close>

definition created_reply :: "string \<Rightarrow> json \<Rightarrow> bool" where
  "created_reply pre b =
     (case get ''data'' b of None \<Rightarrow> False | Some d \<Rightarrow>
      case get_str ''name'' d of None \<Rightarrow> False | Some n \<Rightarrow>
        startswith n pre \<and> get_num ''docstatus'' d = Some 0)"

definition submitted_reply :: "json \<Rightarrow> bool" where
  "submitted_reply b =
     (case get ''data'' b of None \<Rightarrow> False | Some d \<Rightarrow>
        has_key ''name'' d \<and> get_num ''docstatus'' d = Some 1)"

text \<open>
  The branches of \<^verbatim>\<open>do_POST\<close> as the ordered table the claim lists: upload/invoice,
  upload/po, submit, Sales Invoice, Purchase Order, entity creation; the catch-all is the
  default of \<open>first_match\<close>.
\<close>

definition post_branches :: "((string \<Rightarrow> bool) \<times> json) list" where
  "post_branches =
     [(str_in ''/upload/invoice'', mock_invoice_payload),
      (str_in ''/upload/po'', mock_po_payload),
      (\<lambda>p. str_in ''frappe.client.submit'' p \<or> str_in ''submit'' p, submit_payload),
      (\<lambda>p. str_in ''Sales Invoice'' p \<or> str_in ''Sales%20Invoice'' p, sinv_created_payload),
      (\<lambda>p. str_in ''Purchase Order'' p \<or> str_in ''Purchase%20Order'' p, po_created_payload),
      (\<lambda>p. str_in ''/Customer'' p \<or> str_in ''/Item'' p \<or> str_in ''/Company'' p
             \<or> str_in ''/Supplier'' p, entity_created_payload)]"

fun first_match :: "((string \<Rightarrow> bool) \<times> json) list \<Rightarrow> json \<Rightarrow> string \<Rightarrow> json" where
  "first_match [] dflt p = dflt"
| "first_match ((c, b) # bs) dflt p = (if c p then b else first_match bs dflt p)"

section \<open>The form contract of the front end\<close>

text \<open>
  The upload guard, the field validator and the submission outcome resolver live in the
  web front end, which the test suite drives through a browser; the tests and page
  objects are here, the front end is not. Its three components are modelled from the
  specification, sections 4.2 to 4.4.
\<close>

text \<open>
  Modelled from the spec: the file-selection transition of the upload lifecycle (4.4),
  whose implementation (the front end's upload component) is missing. The states are the
  eight of the specification. A selection in state \<open>Empty\<close> moves to \<open>Uploading\<close> when the
  file passes the file-type check and otherwise stays in \<open>Empty\<close> and surfaces the literal
  message. The specification says the check is "by extension/MIME" and no more, so the
  check is a parameter; \<open>pdf_by_extension\<close> is the check of the upload endpoints.
\<close>

datatype lifecycle_state =
  Empty | Uploading | Processing | Populated | Validating | Submitting | Submitted | Failed

record selected_file =
  file_name :: string
  mime_type :: string

definition pdf_by_extension :: "selected_file \<Rightarrow> bool" where
  "pdf_by_extension f = endswith (file_name f) ''.pdf''"

fun select_file ::
  "(selected_file \<Rightarrow> bool) \<Rightarrow> lifecycle_state \<Rightarrow> selected_file \<Rightarrow> lifecycle_state \<times> string option" where
  "select_file is_pdf Empty f =
     (if is_pdf f then (Uploading, None) else (Empty, Some ''Please select a valid PDF file''))"
| "select_file is_pdf Uploading f = (Uploading, None)"
| "select_file is_pdf Processing f = (Processing, None)"
| "select_file is_pdf Populated f = (Populated, None)"
| "select_file is_pdf Validating f = (Validating, None)"
| "select_file is_pdf Submitting f = (Submitting, None)"
| "select_file is_pdf Submitted f = (Submitted, None)"
| "select_file is_pdf Failed f = (Failed, None)"

text \<open>
  Modelled from the spec: the field validator (4.2), whose implementation (the front end's
  form components) is missing. The rules run in the priority order of the specification
  and the first violated rule is the result: company name non-empty, counterparty name
  non-empty (customer of an invoice, supplier of a purchase order), every line quantity
  positive (reported with the 1-based index of the first offending line), and for a
  purchase order a delivery date that is present and not before the order date. Dates are
  day numbers. \<open>literal_message\<close> gives the user-facing text where the specification fixes
  it, and \<open>None\<close> for the three messages it only describes.
\<close>

datatype doc_kind = Invoice | PurchaseOrder

record line_item =
  description :: string
  quantity :: rat
  unit_price :: rat

record document =
  kind :: doc_kind
  company_name :: string
  counterparty_name :: string
  order_date :: nat
  delivery_date :: "nat option"
  items :: "line_item list"

datatype violation =
  CompanyRequired | CounterpartyRequired | QuantityNotPositive nat | DeliveryDateInvalid

datatype verdict = Valid | Invalid violation

fun first_bad_item :: "nat \<Rightarrow> line_item list \<Rightarrow> nat option" where
  "first_bad_item i [] = None"
| "first_bad_item i (it # its) =
     (if quantity it > 0 then first_bad_item (Suc i) its else Some i)"

definition delivery_ok :: "document \<Rightarrow> bool" where
  "delivery_ok d = (case delivery_date d of None \<Rightarrow> False | Some dd \<Rightarrow> order_date d \<le> dd)"

definition validate :: "document \<Rightarrow> verdict" where
  "validate d =
     (if company_name d = [] then Invalid CompanyRequired
      else if counterparty_name d = [] then Invalid CounterpartyRequired
      else case first_bad_item 1 (items d) of
             Some i \<Rightarrow> Invalid (QuantityNotPositive i)
           | None \<Rightarrow>
               if kind d = PurchaseOrder \<and> \<not> delivery_ok d then Invalid DeliveryDateInvalid
               else Valid)"

fun show_nat :: "nat \<Rightarrow> string" where
  "show_nat n =
     (if n < 10 then [''0123456789'' ! n]
      else show_nat (n div 10) @ [''0123456789'' ! (n mod 10)])"

fun literal_message :: "doc_kind \<Rightarrow> violation \<Rightarrow> string option" where
  "literal_message Invoice CompanyRequired =
     Some ''Please specify a company before creating the invoice.''"
| "literal_message PurchaseOrder CompanyRequired = None"
| "literal_message Invoice CounterpartyRequired = None"
| "literal_message PurchaseOrder CounterpartyRequired = Some ''Supplier name is required''"
| "literal_message k (QuantityNotPositive i) =
     Some (''Item '' @ show_nat i @ '': Quantity must be greater than zero'')"
| "literal_message k DeliveryDateInvalid = None"

definition surfaced_error :: "document \<Rightarrow> string option" where
  "surfaced_error d =
     (case validate d of Valid \<Rightarrow> None | Invalid v \<Rightarrow> literal_message (kind d) v)"

text \<open>
  Modelled from the spec: the submission outcome resolver (4.3), whose implementation (the
  front end's submit handler) is missing. A response of the document system carries an
  optional error text, an optional reference number and an optional docstatus. An error
  text decides first: it gives \<open>Warning\<close> when it contains "currency" and \<open>Error\<close>
  otherwise, whatever success signals come with it. Without an error text, a reference
  with the prefix of its document kind and docstatus 1 is \<open>Success\<close>, any other reference
  is a document created but not submitted, \<open>Warning\<close>, and no reference is \<open>Error\<close>.
\<close>

record submission_response =
  error_text :: "string option"
  reference :: "string option"
  docstatus :: "nat option"

datatype outcome = Success | Warning | Error

definition valid_reference :: "doc_kind \<Rightarrow> string \<Rightarrow> bool" where
  "valid_reference k n =
     (case k of
        Invoice \<Rightarrow> startswith n ''SINV-'' \<or> startswith n ''ACC-SINV-''
      | PurchaseOrder \<Rightarrow> startswith n ''PO-'')"

definition resolve_outcome :: "doc_kind \<Rightarrow> submission_response \<Rightarrow> outcome" where
  "resolve_outcome k r =
     (case error_text r of
        Some e \<Rightarrow> if str_in ''currency'' e then Warning else Error
      | None \<Rightarrow>
          (case reference r of
             None \<Rightarrow> Error
           | Some n \<Rightarrow> if valid_reference k n \<and> docstatus r = Some 1 then Success else Warning))"

section \<open>String helpers agree with the library notions\<close>

lemma str_in_sublist: "str_in n h \<longleftrightarrow> sublist n h"
  by (induction h) (simp_all add: sublist_Cons_right)

lemma endswith_suffix: "endswith s suf \<longleftrightarrow> suffix suf s"
  by (simp add: endswith_def suffix_to_prefix)

section \<open>Claims about the mock server\<close>

text \<open>
  Claim C5. A GET on the mock server whose path contains \<^verbatim>\<open>/Customer/\<close>, \<^verbatim>\<open>/Item/\<close> or
  \<^verbatim>\<open>/Supplier/\<close> and does not contain \<^verbatim>\<open>/Company/\<close> is answered with status 404 and
  body \<^verbatim>\<open>{"exc": "Not Found"}\<close>; a GET whose path contains \<^verbatim>\<open>/Company/\<close> is answered
  with status 200, name DEMO and default currency USD, whatever else the path contains;
  every other GET is answered with status 200 and \<^verbatim>\<open>{"data": {}}\<close>. In each case exactly
  one response is written.
\<close>

theorem do_GET_dispatch:
  "\<exists>r. do_GET path wfile = wfile @ [r] \<and>
     ((str_in ''/Customer/'' path \<or> str_in ''/Item/'' path \<or> str_in ''/Supplier/'' path)
         \<and> \<not> str_in ''/Company/'' path \<longrightarrow>
        status r = 404 \<and> body r = JObj [(''exc'', JStr ''Not Found'')]) \<and>
     (str_in ''/Company/'' path \<longrightarrow>
        status r = 200 \<and>
        body r = JObj [(''data'', JObj [(''name'', JStr ''DEMO''),
                                       (''default_currency'', JStr ''USD'')])]) \<and>
     (\<not> str_in ''/Company/'' path \<and> \<not> str_in ''/Customer/'' path
         \<and> \<not> str_in ''/Item/'' path \<and> \<not> str_in ''/Supplier/'' path \<longrightarrow>
        status r = 200 \<and> body r = JObj [(''data'', JObj [])])"
  by (simp add: do_GET_def send_json_response_def)

theorem do_GET_dispatch_witness:
  "(\<exists>r. do_GET ''/api/resource/Customer/Test%20Customer'' [] = [r] \<and>
        status r = 404 \<and> body r = JObj [(''exc'', JStr ''Not Found'')]) \<and>
   (\<exists>r. do_GET ''/api/resource/Company/DEMO/Item/'' [] = [r] \<and>
        status r = 200 \<and>
        body r = JObj [(''data'', JObj [(''name'', JStr ''DEMO''),
                                       (''default_currency'', JStr ''USD'')])]) \<and>
   (\<exists>r. do_GET ''/api/method/ping'' [] = [r] \<and>
        status r = 200 \<and> body r = JObj [(''data'', JObj [])])"
  using do_GET_dispatch [of "''/api/resource/Customer/Test%20Customer''" "[]"]
        do_GET_dispatch [of "''/api/resource/Company/DEMO/Item/''" "[]"]
        do_GET_dispatch [of "''/api/method/ping''" "[]"]
  by simp

text \<open>
  Every path that contains \<^verbatim>\<open>frappe.client.submit\<close> contains \<^verbatim>\<open>submit\<close>, so the first
  disjunct of the submit branch of \<^verbatim>\<open>do_POST\<close> adds nothing to the second.
\<close>

lemma frappe_submit: "str_in ''frappe.client.submit'' p \<Longrightarrow> str_in ''submit'' p"
proof -
  assume "str_in ''frappe.client.submit'' p"
  then have "sublist ''frappe.client.submit'' p" by (simp add: str_in_sublist)
  moreover have "sublist ''submit'' ''frappe.client.submit''"
    by (simp add: str_in_sublist [symmetric])
  ultimately have "sublist ''submit'' p" by (rule sublist_order.order.trans [rotated])
  then show ?thesis by (simp add: str_in_sublist)
qed

text \<open>
  Claim C6 does not hold as stated for every POST whose path contains \<^verbatim>\<open>submit\<close>: the
  two upload branches are tested before the submit branch, so the path
  \<^verbatim>\<open>/upload/invoice/submit\<close> is answered with the invoice extraction payload, which has
  neither a docstatus nor a name.
\<close>

theorem submit_substring_counterexample:
  "str_in ''submit'' ''/upload/invoice/submit'' \<and>
   \<not> submitted_reply (body (last (do_POST ''/upload/invoice/submit'' [])))"
  by (simp add: do_POST_def send_json_response_def mock_invoice_payload_def submitted_reply_def)

text \<open>
  Claim C6, as it holds of the code. The mock server implements the create-then-submit
  contract: a POST whose path contains \<^verbatim>\<open>Sales Invoice\<close> (or \<^verbatim>\<open>Sales%20Invoice\<close>) and
  matches no earlier branch is answered with status 200, a name prefixed \<^verbatim>\<open>SINV-\<close> and
  docstatus 0; a POST whose path contains \<^verbatim>\<open>Purchase Order\<close> (or \<^verbatim>\<open>Purchase%20Order\<close>)
  and matches no earlier branch is answered with status 200, a name prefixed \<^verbatim>\<open>PO-\<close> and
  docstatus 0; a POST whose path contains \<^verbatim>\<open>submit\<close> and neither \<^verbatim>\<open>/upload/invoice\<close> nor
  \<^verbatim>\<open>/upload/po\<close>, and every PUT whose path contains \<^verbatim>\<open>SINV-\<close> or \<^verbatim>\<open>PO-\<close>, is answered
  with status 200, docstatus 1 and a name field.
\<close>

theorem create_then_submit:
  "(\<not> str_in ''/upload/invoice'' path \<and> \<not> str_in ''/upload/po'' path \<and>
    \<not> str_in ''submit'' path \<and>
    (str_in ''Sales Invoice'' path \<or> str_in ''Sales%20Invoice'' path) \<longrightarrow>
      (\<exists>r. do_POST path wfile = wfile @ [r] \<and> status r = 200 \<and>
           created_reply ''SINV-'' (body r))) \<and>
   (\<not> str_in ''/upload/invoice'' path \<and> \<not> str_in ''/upload/po'' path \<and>
    \<not> str_in ''submit'' path \<and>
    \<not> str_in ''Sales Invoice'' path \<and> \<not> str_in ''Sales%20Invoice'' path \<and>
    (str_in ''Purchase Order'' path \<or> str_in ''Purchase%20Order'' path) \<longrightarrow>
      (\<exists>r. do_POST path wfile = wfile @ [r] \<and> status r = 200 \<and>
           created_reply ''PO-'' (body r))) \<and>
   (\<not> str_in ''/upload/invoice'' path \<and> \<not> str_in ''/upload/po'' path \<and>
    str_in ''submit'' path \<longrightarrow>
      (\<exists>r. do_POST path wfile = wfile @ [r] \<and> status r = 200 \<and> submitted_reply (body r))) \<and>
   (str_in ''SINV-'' path \<or> str_in ''PO-'' path \<longrightarrow>
      (\<exists>r. do_PUT path wfile = wfile @ [r] \<and> status r = 200 \<and> submitted_reply (body r)))"
proof -
  have ns: "\<not> str_in ''submit'' path \<Longrightarrow> \<not> str_in ''frappe.client.submit'' path"
    using frappe_submit by blast
  show ?thesis
    using ns
    by (auto simp add: do_POST_def do_PUT_def Let_def send_json_response_def
          sinv_created_payload_def po_created_payload_def submit_payload_def
          created_reply_def submitted_reply_def startswith_def)
qed

theorem create_then_submit_witness:
  "(\<exists>r. do_POST ''/api/resource/Sales Invoice'' [] = [r] \<and> status r = 200 \<and>
        created_reply ''SINV-'' (body r)) \<and>
   (\<exists>r. do_POST ''/api/resource/Purchase Order'' [] = [r] \<and> status r = 200 \<and>
        created_reply ''PO-'' (body r)) \<and>
   (\<exists>r. do_POST ''/api/method/frappe.client.submit'' [] = [r] \<and> status r = 200 \<and>
        submitted_reply (body r)) \<and>
   (\<exists>r. do_PUT ''/api/resource/Purchase Order/PO-2026-00001'' [] = [r] \<and> status r = 200 \<and>
        submitted_reply (body r))"
  using create_then_submit [of "''/api/resource/Sales Invoice''" "[]"]
        create_then_submit [of "''/api/resource/Purchase Order''" "[]"]
        create_then_submit [of "''/api/method/frappe.client.submit''" "[]"]
        create_then_submit [of "''/api/resource/Purchase Order/PO-2026-00001''" "[]"]
  by simp

text \<open>
  Claim C10 does not hold as stated for every POST whose path names Sales Invoice and
  contains \<^verbatim>\<open>submit\<close>: when the path also contains \<^verbatim>\<open>/upload/invoice\<close>, the first branch
  answers, not the submit branch. The path below holds no whitespace, so it reaches the
  handler; it names the document type the way a URL does, \<^verbatim>\<open>Sales%20Invoice\<close>, the second
  spelling the Sales Invoice branch tests.
\<close>

theorem submit_branch_counterexample:
  "request_target ''/upload/invoice?doctype=Sales%20Invoice&action=submit'' \<and>
   str_in ''Sales%20Invoice'' ''/upload/invoice?doctype=Sales%20Invoice&action=submit'' \<and>
   str_in ''submit'' ''/upload/invoice?doctype=Sales%20Invoice&action=submit'' \<and>
   body (last (do_POST ''/upload/invoice?doctype=Sales%20Invoice&action=submit'' []))
     \<noteq> submit_payload"
  by (simp add: request_target_def whitespace_def do_POST_def send_json_response_def
        mock_invoice_payload_def submit_payload_def)

text \<open>
  Claim C10, as it holds of the code. The POST dispatch of the mock server is total and
  first-match ordered: every POST writes exactly one response, with status 200 and a JSON
  content type; its body is that of the first matching branch in the order upload/invoice,
  upload/po, submit, Sales Invoice, Purchase Order, entity creation, and \<^verbatim>\<open>{"data": {}}\<close>
  when no branch matches. A POST whose path contains \<^verbatim>\<open>Sales%20Invoice\<close> (or
  \<^verbatim>\<open>Sales Invoice\<close>) and \<^verbatim>\<open>submit\<close> is never answered by the Sales Invoice creation
  branch, and it is answered by the submit branch (name "Submitted", docstatus 1) when the
  path contains neither \<^verbatim>\<open>/upload/invoice\<close> nor \<^verbatim>\<open>/upload/po\<close>.
\<close>

theorem do_POST_total_first_match:
  "\<exists>r. do_POST path wfile = wfile @ [r] \<and>
        status r = 200 \<and>
        map_of (headers r) ''Content-type'' = Some ''application/json'' \<and>
        body r = first_match post_branches empty_payload path \<and>
        (list_all (\<lambda>(c, b). \<not> c path) post_branches \<longrightarrow> body r = JObj [(''data'', JObj [])]) \<and>
        ((str_in ''Sales%20Invoice'' path \<or> str_in ''Sales Invoice'' path) \<and>
         str_in ''submit'' path \<and>
         \<not> str_in ''/upload/invoice'' path \<and> \<not> str_in ''/upload/po'' path \<longrightarrow>
           body r = JObj [(''data'', JObj [(''name'', JStr ''Submitted''), (''docstatus'', JNum 1)])]) \<and>
        ((str_in ''Sales%20Invoice'' path \<or> str_in ''Sales Invoice'' path) \<and>
         str_in ''submit'' path \<longrightarrow>
           body r \<noteq> sinv_created_payload)"
  by (simp add: do_POST_def post_branches_def send_json_response_def empty_payload_def
        submit_payload_def sinv_created_payload_def mock_invoice_payload_def
        mock_po_payload_def)

theorem do_POST_total_first_match_witness:
  "request_target ''/api/resource/Sales%20Invoice/SINV-2026-00001?run_method=submit'' \<and>
   (\<exists>r. do_POST ''/api/resource/Sales%20Invoice/SINV-2026-00001?run_method=submit'' [] = [r] \<and>
        status r = 200 \<and>
        body r = JObj [(''data'', JObj [(''name'', JStr ''Submitted''), (''docstatus'', JNum 1)])] \<and>
        body r \<noteq> sinv_created_payload)"
proof -
  have t: "request_target ''/api/resource/Sales%20Invoice/SINV-2026-00001?run_method=submit''"
    by (simp add: request_target_def whitespace_def)
  have p: "str_in ''Sales%20Invoice'' ''/api/resource/Sales%20Invoice/SINV-2026-00001?run_method=submit'' \<and>
           str_in ''submit'' ''/api/resource/Sales%20Invoice/SINV-2026-00001?run_method=submit'' \<and>
           \<not> str_in ''/upload/invoice'' ''/api/resource/Sales%20Invoice/SINV-2026-00001?run_method=submit'' \<and>
           \<not> str_in ''/upload/po'' ''/api/resource/Sales%20Invoice/SINV-2026-00001?run_method=submit''"
    by simp
  from t p
    do_POST_total_first_match
      [of "''/api/resource/Sales%20Invoice/SINV-2026-00001?run_method=submit''" "[]"]
  show ?thesis by auto
qed

section \<open>Claims about the upload handlers\<close>

text \<open>
  A handler answers with status 200 only by returning its mock data, whatever the request
  and the file system; the bodies are checked once, for every date and filename.
\<close>

lemmas upload_defs = upload_invoice_def upload_po_def request_files_def file_save_def
  Let_def jsonify_def

lemmas fresh_defs = fresh_file_system_def in_upload_folder_def dirname_def UPLOAD_FOLDER_def
  MAX_CONTENT_LENGTH_def endswith_def

lemma upload_invoice_200:
  "upload_invoice stamp today req fs = Inr (res, fs') \<Longrightarrow> status res = 200 \<Longrightarrow>
     \<exists>filename. body res = invoice_mock_data today filename"
  by (auto simp add: upload_defs split: option.splits sum.splits if_splits)

lemma upload_po_200:
  "upload_po stamp today req fs = Inr (res, fs') \<Longrightarrow> status res = 200 \<Longrightarrow>
     \<exists>filename. body res = po_mock_data today filename"
  by (auto simp add: upload_defs split: option.splits sum.splits if_splits)

lemma flask_po_items_ok: "po_items_ok (po_mock_data today filename)"
  by (simp add: po_mock_data_def po_items_ok_def po_item_ok_def round2_def)

lemma mock_po_items_ok: "po_items_ok mock_po_payload"
  by (simp add: mock_po_payload_def po_items_ok_def po_item_ok_def round2_def)

lemma flask_invoice_equations:
  "\<exists>d. get ''data'' (invoice_mock_data today filename) = Some d \<and> invoice_equations d"
  by (simp add: invoice_mock_data_def invoice_equations_def invoice_item_ok_def field_sum_def
        round2_def)

lemma flask_invoice_shape: "invoice_response_shape (invoice_mock_data today filename)"
  by (simp add: invoice_mock_data_def invoice_response_shape_def holds_invoice_schema_def
        holds_fields_def invoice_schema_fields_def invoice_item_fields_def)

lemma flask_po_fields:
  "has_key ''filename'' (po_mock_data today filename) \<and> holds_po_schema (po_mock_data today filename)"
  by (simp add: po_mock_data_def holds_po_schema_def holds_fields_def po_schema_fields_def
        po_item_fields_def)

text \<open>
  Claim C1 does not hold as stated: in both purchase order bodies the line totals are
  quantity times unit price, but \<^verbatim>\<open>total_amount\<close> is not the sum of the line totals. The
  Flask body has \<^verbatim>\<open>total_amount\<close> 1520.00 over lines of 750.00, 750.00 and 320.00; the
  body of the mock server has 292.50 over one line of 250.00.
\<close>

theorem po_total_amount_counterexample:
  "upload_po ''20260129_101500'' ''2026-01-29''
       \<lparr>content_length = 2048, files = [(''file'', ''po.pdf'')]\<rparr> fresh_file_system
     = Inr (jsonify (po_mock_data ''2026-01-29'' ''po_20260129_101500_po.pdf'') 200,
            fresh_file_system\<lparr>written := [''uploads/po_20260129_101500_po.pdf'']\<rparr>) \<and>
   \<not> po_equations (po_mock_data ''2026-01-29'' ''po_20260129_101500_po.pdf'') \<and>
   status (last (do_POST ''/upload/po'' [])) = 200 \<and>
   \<not> po_equations (body (last (do_POST ''/upload/po'' [])))"
  by (simp add: upload_defs fresh_defs po_mock_data_def
        do_POST_def send_json_response_def mock_po_payload_def
        po_equations_def po_total_ok_def field_sum_def round2_def)

text \<open>
  Claim C1, as it holds of the code. Every purchase order extraction response of the PO
  upload handlers, the Flask endpoint \<^verbatim>\<open>POST /upload/po\<close> and the \<^verbatim>\<open>/upload/po\<close> branch of
  the mock server, satisfies the line equation: for each line item, total is quantity
  times unit price, rounded to two decimal places.
\<close>

theorem po_line_totals:
  "(upload_po stamp today req fs = Inr (res, fs') \<and> status res = 200 \<longrightarrow>
      po_items_ok (body res)) \<and>
   (\<not> str_in ''/upload/invoice'' path \<and> str_in ''/upload/po'' path \<longrightarrow>
      (\<exists>r. do_POST path wfile = wfile @ [r] \<and> status r = 200 \<and> po_items_ok (body r)))"
proof -
  have "upload_po stamp today req fs = Inr (res, fs') \<and> status res = 200 \<longrightarrow>
      po_items_ok (body res)"
    using upload_po_200 [of stamp today req fs res fs'] flask_po_items_ok by auto
  moreover have "\<not> str_in ''/upload/invoice'' path \<and> str_in ''/upload/po'' path \<longrightarrow>
      (\<exists>r. do_POST path wfile = wfile @ [r] \<and> status r = 200 \<and> po_items_ok (body r))"
    by (simp add: do_POST_def send_json_response_def mock_po_items_ok)
  ultimately show ?thesis by blast
qed

theorem po_line_totals_witness:
  "(\<exists>res fs'. upload_po ''20260129_101500'' ''2026-01-29''
        \<lparr>content_length = 2048, files = [(''file'', ''po.pdf'')]\<rparr> fresh_file_system
          = Inr (res, fs') \<and> status res = 200 \<and> po_items_ok (body res)) \<and>
   \<not> str_in ''/upload/invoice'' ''/upload/po'' \<and> str_in ''/upload/po'' ''/upload/po'' \<and>
   (\<exists>r. do_POST ''/upload/po'' [] = [r] \<and> status r = 200 \<and> po_items_ok (body r))"
proof -
  have "\<exists>res fs'. upload_po ''20260129_101500'' ''2026-01-29''
        \<lparr>content_length = 2048, files = [(''file'', ''po.pdf'')]\<rparr> fresh_file_system
          = Inr (res, fs') \<and> status res = 200"
    by (simp add: upload_defs fresh_defs)
  then obtain res fs' where
    e: "upload_po ''20260129_101500'' ''2026-01-29''
        \<lparr>content_length = 2048, files = [(''file'', ''po.pdf'')]\<rparr> fresh_file_system
          = Inr (res, fs')" and s: "status res = 200"
    by blast
  have p: "\<not> str_in ''/upload/invoice'' ''/upload/po'' \<and> str_in ''/upload/po'' ''/upload/po''"
    by simp
  from e s p po_line_totals [of "''20260129_101500''" "''2026-01-29''"
       "\<lparr>content_length = 2048, files = [(''file'', ''po.pdf'')]\<rparr>" fresh_file_system
       res fs' "''/upload/po''" "[]"]
  show ?thesis by auto
qed

text \<open>
  Claim C2. Every invoice extraction response of the invoice upload handlers satisfies
  the derived-field equations: for each line item, amount is quantity times rate;
  \<^verbatim>\<open>SubTotal\<close> is the sum of the line amounts; \<^verbatim>\<open>InvoiceTotal\<close> is \<^verbatim>\<open>SubTotal\<close> plus
  \<^verbatim>\<open>ShippingCost\<close> plus \<^verbatim>\<open>Tax\<close>, each rounded to two decimal places. The payload of the
  mock server is Scenario 1: one item of quantity 2 and rate 100, shipping 15, tax 35,
  subtotal 200 and total 250.
\<close>

theorem invoice_equations_hold:
  "(upload_invoice stamp today req fs = Inr (res, fs') \<and> status res = 200 \<longrightarrow>
      (\<exists>d. get ''data'' (body res) = Some d \<and> invoice_equations d)) \<and>
   (str_in ''/upload/invoice'' path \<longrightarrow>
      (\<exists>r d it. do_POST path wfile = wfile @ [r] \<and> status r = 200 \<and>
           get ''data'' (body r) = Some d \<and> invoice_equations d \<and>
           get_arr ''Items'' d = Some [it] \<and>
           get_num ''quantity'' it = Some 2 \<and> get_num ''rate'' it = Some 100 \<and>
           get_num ''ShippingCost'' d = Some 15 \<and> get_num ''Tax'' d = Some 35 \<and>
           get_num ''SubTotal'' d = Some 200 \<and> get_num ''InvoiceTotal'' d = Some 250))"
proof -
  have "upload_invoice stamp today req fs = Inr (res, fs') \<and> status res = 200 \<longrightarrow>
      (\<exists>d. get ''data'' (body res) = Some d \<and> invoice_equations d)"
    using upload_invoice_200 [of stamp today req fs res fs'] flask_invoice_equations by auto
  moreover have "str_in ''/upload/invoice'' path \<longrightarrow>
      (\<exists>r d it. do_POST path wfile = wfile @ [r] \<and> status r = 200 \<and>
           get ''data'' (body r) = Some d \<and> invoice_equations d \<and>
           get_arr ''Items'' d = Some [it] \<and>
           get_num ''quantity'' it = Some 2 \<and> get_num ''rate'' it = Some 100 \<and>
           get_num ''ShippingCost'' d = Some 15 \<and> get_num ''Tax'' d = Some 35 \<and>
           get_num ''SubTotal'' d = Some 200 \<and> get_num ''InvoiceTotal'' d = Some 250)"
    by (simp add: do_POST_def send_json_response_def mock_invoice_payload_def
          invoice_equations_def invoice_item_ok_def field_sum_def round2_def)
  ultimately show ?thesis by blast
qed

theorem invoice_equations_hold_witness:
  "(\<exists>res fs' d. upload_invoice ''20260129_101500'' ''2026-01-29''
        \<lparr>content_length = 2048, files = [(''file'', ''invoice.pdf'')]\<rparr> fresh_file_system
          = Inr (res, fs') \<and> status res = 200 \<and>
        get ''data'' (body res) = Some d \<and> invoice_equations d) \<and>
   str_in ''/upload/invoice'' ''/upload/invoice'' \<and>
   (\<exists>r d. do_POST ''/upload/invoice'' [] = [r] \<and> get ''data'' (body r) = Some d \<and>
       invoice_equations d \<and> get_num ''SubTotal'' d = Some 200 \<and>
       get_num ''InvoiceTotal'' d = Some 250)"
proof -
  have "\<exists>res fs'. upload_invoice ''20260129_101500'' ''2026-01-29''
        \<lparr>content_length = 2048, files = [(''file'', ''invoice.pdf'')]\<rparr> fresh_file_system
          = Inr (res, fs') \<and> status res = 200"
    by (simp add: upload_defs fresh_defs)
  then obtain res fs' where
    e: "upload_invoice ''20260129_101500'' ''2026-01-29''
        \<lparr>content_length = 2048, files = [(''file'', ''invoice.pdf'')]\<rparr> fresh_file_system
          = Inr (res, fs')" and s: "status res = 200"
    by blast
  have p: "str_in ''/upload/invoice'' ''/upload/invoice''" by simp
  from e s p invoice_equations_hold [of "''20260129_101500''" "''2026-01-29''"
       "\<lparr>content_length = 2048, files = [(''file'', ''invoice.pdf'')]\<rparr>" fresh_file_system
       res fs' "''/upload/invoice''" "[]"]
  show ?thesis by auto
qed

text \<open>
  Claim C3 does not hold as stated, in neither direction. A request with a \<^verbatim>\<open>file\<close> part
  named \<^verbatim>\<open>sub/dir.pdf\<close> meets none of the three conditions, but \<^verbatim>\<open>file.save\<close> is refused
  the path \<^verbatim>\<open>uploads/invoice_20260129_101500_sub/dir.pdf\<close>, whose directory does not exist,
  and the request ends in status 500, not 200. A request of 20 000 000 bytes without a
  \<^verbatim>\<open>file\<close> part is over the limit of 16 MB and is answered 413, not 400.
\<close>

theorem upload_not_200_counterexample:
  "content_length \<lparr>content_length = 2048, files = [(''file'', ''sub/dir.pdf'')]\<rparr>
     \<le> MAX_CONTENT_LENGTH \<and>
   map_of (files \<lparr>content_length = 2048, files = [(''file'', ''sub/dir.pdf'')]\<rparr>) ''file''
     = Some ''sub/dir.pdf'' \<and>
   endswith ''sub/dir.pdf'' ''.pdf'' \<and>
   upload_invoice ''20260129_101500'' ''2026-01-29''
       \<lparr>content_length = 2048, files = [(''file'', ''sub/dir.pdf'')]\<rparr> fresh_file_system
     = Inl OSError \<and>
   served_status (upload_invoice ''20260129_101500'' ''2026-01-29''
       \<lparr>content_length = 2048, files = [(''file'', ''sub/dir.pdf'')]\<rparr> fresh_file_system)
     = 500 \<and>
   map_of (files \<lparr>content_length = 20000000, files = []\<rparr>) ''file'' = None \<and>
   served_status (upload_po ''20260129_101500'' ''2026-01-29''
       \<lparr>content_length = 20000000, files = []\<rparr> fresh_file_system) = 413"
  by (simp add: upload_defs fresh_defs)

text \<open>
  Claim C3, as it holds of the code. A POST to \<^verbatim>\<open>/upload/invoice\<close> or \<^verbatim>\<open>/upload/po\<close> on
  the Flask server whose body is over \<^verbatim>\<open>MAX_CONTENT_LENGTH\<close> (16 MB) is answered with
  status 413 before any check. For every other POST the handler returns status 400, with
  a body \<^verbatim>\<open>{"error": message}\<close> and the file system untouched, if and only if the request
  has no \<^verbatim>\<open>file\<close> part, or the filename of the part is empty, or the filename does not end
  with \<^verbatim>\<open>.pdf\<close>; it returns status 200 if and only if none of the three holds and
  \<^verbatim>\<open>file.save\<close> stores the upload under \<^verbatim>\<open>uploads/\<close>, the handler's prefix, the time stamp
  and the filename. The three conditions are checked in that order and the first failing
  one gives the message: the empty filename, which does not end with \<^verbatim>\<open>.pdf\<close> either, is
  reported as "No file selected".
\<close>

theorem upload_status_cases:
  assumes "h = upload_invoice \<and> pre = ''invoice_'' \<or> h = upload_po \<and> pre = ''po_''"
    and "res = h stamp today req fs"
    and "f = map_of (files req) ''file''"
  shows
  "(MAX_CONTENT_LENGTH < content_length req \<longrightarrow>
      res = Inl RequestEntityTooLarge \<and> served_status res = 413) \<and>
   (content_length req \<le> MAX_CONTENT_LENGTH \<longrightarrow>
      (served_status res = 400 \<longleftrightarrow>
         (f = None \<or> f = Some [] \<or> (\<exists>n. f = Some n \<and> \<not> endswith n ''.pdf''))) \<and>
      (served_status res = 400 \<longrightarrow>
         (\<exists>msg. res = Inr (jsonify (JObj [(''error'', JStr msg)]) 400, fs))) \<and>
      (served_status res = 200 \<longleftrightarrow>
         (\<exists>n. f = Some n \<and> n \<noteq> [] \<and> endswith n ''.pdf'' \<and>
              can_open fs (UPLOAD_FOLDER @ ''/'' @ pre @ stamp @ ''_'' @ n))) \<and>
      (f = None \<longrightarrow>
         res = Inr (jsonify (JObj [(''error'', JStr ''No file provided'')]) 400, fs)) \<and>
      (f = Some [] \<longrightarrow>
         res = Inr (jsonify (JObj [(''error'', JStr ''No file selected'')]) 400, fs)) \<and>
      (\<forall>n. f = Some n \<and> n \<noteq> [] \<and> \<not> endswith n ''.pdf'' \<longrightarrow>
         res = Inr (jsonify (JObj [(''error'', JStr ''Only PDF files are accepted'')]) 400, fs)))"
proof -
  let ?path = "\<lambda>n. UPLOAD_FOLDER @ ''/'' @ pre @ stamp @ ''_'' @ n"
  note h = assms(1) and res = assms(2) and f = assms(3) [symmetric]
  consider
      (too_large) "MAX_CONTENT_LENGTH < content_length req"
    | (no_file) "\<not> MAX_CONTENT_LENGTH < content_length req" "f = None"
    | (no_name) "\<not> MAX_CONTENT_LENGTH < content_length req" "f = Some []"
    | (not_pdf) n where "\<not> MAX_CONTENT_LENGTH < content_length req" "f = Some n" "n \<noteq> []"
        "\<not> endswith n ''.pdf''"
    | (saved) n where "\<not> MAX_CONTENT_LENGTH < content_length req" "f = Some n" "n \<noteq> []"
        "endswith n ''.pdf''" "can_open fs (?path n)"
    | (refused) n where "\<not> MAX_CONTENT_LENGTH < content_length req" "f = Some n" "n \<noteq> []"
        "endswith n ''.pdf''" "\<not> can_open fs (?path n)"
    by (cases f) auto
  then show ?thesis
  proof cases
    case too_large
    with h res show ?thesis by (auto simp add: upload_defs)
  next
    case no_file
    with h res f show ?thesis by (auto simp add: upload_defs)
  next
    case no_name
    with h res f show ?thesis by (auto simp add: upload_defs endswith_def)
  next
    case not_pdf
    with h res f show ?thesis by (auto simp add: upload_defs)
  next
    case saved
    with h res f show ?thesis by (auto simp add: upload_defs)
  next
    case refused
    with h res f show ?thesis by (auto simp add: upload_defs)
  qed
qed

theorem upload_status_cases_witness:
  "served_status (upload_invoice ''20260129_101500'' ''2026-01-29''
       \<lparr>content_length = 2048, files = []\<rparr> fresh_file_system) = 400 \<and>
   upload_invoice ''20260129_101500'' ''2026-01-29''
       \<lparr>content_length = 2048, files = []\<rparr> fresh_file_system
     = Inr (jsonify (JObj [(''error'', JStr ''No file provided'')]) 400, fresh_file_system) \<and>
   upload_po ''20260129_101500'' ''2026-01-29''
       \<lparr>content_length = 2048, files = [(''file'', [])]\<rparr> fresh_file_system
     = Inr (jsonify (JObj [(''error'', JStr ''No file selected'')]) 400, fresh_file_system) \<and>
   upload_invoice ''20260129_101500'' ''2026-01-29''
       \<lparr>content_length = 2048, files = [(''file'', ''notes.txt'')]\<rparr> fresh_file_system
     = Inr (jsonify (JObj [(''error'', JStr ''Only PDF files are accepted'')]) 400,
            fresh_file_system) \<and>
   served_status (upload_po ''20260129_101500'' ''2026-01-29''
       \<lparr>content_length = 2048, files = [(''file'', ''order.pdf'')]\<rparr> fresh_file_system) = 200 \<and>
   served_status (upload_po ''20260129_101500'' ''2026-01-29''
       \<lparr>content_length = 16777217, files = [(''file'', ''order.pdf'')]\<rparr> fresh_file_system)
     = 413"
proof -
  have a: "upload_invoice = upload_invoice \<and> ''invoice_'' = ''invoice_'' \<or>
           upload_invoice = upload_po \<and> ''invoice_'' = ''po_''"
    by simp
  have b: "upload_po = upload_invoice \<and> ''po_'' = ''invoice_'' \<or>
           upload_po = upload_po \<and> ''po_'' = ''po_''"
    by simp
  have small: "(2048::nat) \<le> MAX_CONTENT_LENGTH" "\<not> MAX_CONTENT_LENGTH < (2048::nat)"
    and big: "MAX_CONTENT_LENGTH < (16777217::nat)"
    by (simp_all add: MAX_CONTENT_LENGTH_def)
  have 1: "served_status (upload_invoice ''20260129_101500'' ''2026-01-29''
       \<lparr>content_length = 2048, files = []\<rparr> fresh_file_system) = 400 \<and>
     upload_invoice ''20260129_101500'' ''2026-01-29''
       \<lparr>content_length = 2048, files = []\<rparr> fresh_file_system
     = Inr (jsonify (JObj [(''error'', JStr ''No file provided'')]) 400, fresh_file_system)"
    using upload_status_cases [OF a refl refl, where stamp = "''20260129_101500''" and today = "''2026-01-29''"
          and req = "\<lparr>content_length = 2048, files = []\<rparr>" and fs = fresh_file_system] small
    by (simp add: jsonify_def)
  have 2: "upload_po ''20260129_101500'' ''2026-01-29''
       \<lparr>content_length = 2048, files = [(''file'', [])]\<rparr> fresh_file_system
     = Inr (jsonify (JObj [(''error'', JStr ''No file selected'')]) 400, fresh_file_system)"
    using upload_status_cases [OF b refl refl, where stamp = "''20260129_101500''" and today = "''2026-01-29''"
          and req = "\<lparr>content_length = 2048, files = [(''file'', [])]\<rparr>" and fs = fresh_file_system] small
    by simp
  have 3: "upload_invoice ''20260129_101500'' ''2026-01-29''
       \<lparr>content_length = 2048, files = [(''file'', ''notes.txt'')]\<rparr> fresh_file_system
     = Inr (jsonify (JObj [(''error'', JStr ''Only PDF files are accepted'')]) 400,
            fresh_file_system)"
    using upload_status_cases [OF a refl refl, where stamp = "''20260129_101500''" and today = "''2026-01-29''"
          and req = "\<lparr>content_length = 2048, files = [(''file'', ''notes.txt'')]\<rparr>" and fs = fresh_file_system]
          small
    by (simp add: endswith_def)
  have "can_open fresh_file_system (UPLOAD_FOLDER @ ''/'' @ ''po_'' @ ''20260129_101500'' @ ''_'' @ ''order.pdf'')"
    by (simp add: fresh_defs)
  then have 4: "served_status (upload_po ''20260129_101500'' ''2026-01-29''
       \<lparr>content_length = 2048, files = [(''file'', ''order.pdf'')]\<rparr> fresh_file_system) = 200"
    using upload_status_cases [OF b refl refl, where stamp = "''20260129_101500''" and today = "''2026-01-29''"
          and req = "\<lparr>content_length = 2048, files = [(''file'', ''order.pdf'')]\<rparr>" and fs = fresh_file_system]
          small
    by (simp add: endswith_def)
  have 5: "served_status (upload_po ''20260129_101500'' ''2026-01-29''
       \<lparr>content_length = 16777217, files = [(''file'', ''order.pdf'')]\<rparr> fresh_file_system)
     = 413"
    using upload_status_cases [OF b refl refl, where stamp = "''20260129_101500''" and today = "''2026-01-29''"
          and req = "\<lparr>content_length = 16777217, files = [(''file'', ''order.pdf'')]\<rparr>" and fs = fresh_file_system] big
    by simp
  from 1 2 3 4 5 show ?thesis by blast
qed

text \<open>
  Claim C4 does not hold as stated: of the four 200 responses of the upload endpoints only
  the Flask invoice response has both a \<^verbatim>\<open>filename\<close> field and a \<^verbatim>\<open>data\<close> object. The two
  purchase order bodies carry their fields at the top level, with no \<^verbatim>\<open>data\<close> object, and
  the two bodies of the mock server have no \<^verbatim>\<open>filename\<close> field.
\<close>

theorem upload_response_shape_counterexample:
  "upload_po ''20260129_101500'' ''2026-01-29''
       \<lparr>content_length = 2048, files = [(''file'', ''po.pdf'')]\<rparr> fresh_file_system
     = Inr (jsonify (po_mock_data ''2026-01-29'' ''po_20260129_101500_po.pdf'') 200,
            fresh_file_system\<lparr>written := [''uploads/po_20260129_101500_po.pdf'']\<rparr>) \<and>
   \<not> po_response_shape (po_mock_data ''2026-01-29'' ''po_20260129_101500_po.pdf'') \<and>
   status (last (do_POST ''/upload/invoice'' [])) = 200 \<and>
   \<not> invoice_response_shape (body (last (do_POST ''/upload/invoice'' []))) \<and>
   status (last (do_POST ''/upload/po'' [])) = 200 \<and>
   \<not> po_response_shape (body (last (do_POST ''/upload/po'' [])))"
  by (simp add: upload_defs fresh_defs po_mock_data_def
        do_POST_def send_json_response_def mock_po_payload_def mock_invoice_payload_def
        po_response_shape_def invoice_response_shape_def)

text \<open>
  Claim C4, as it holds of the code. Every 200 response of the upload endpoints is a JSON
  object that holds the extraction schema fields of its document kind: an invoice
  response, of the Flask server or of the mock server, holds the invoice fields and the
  item fields in a \<^verbatim>\<open>data\<close> object; a purchase order response, of either server, holds
  the purchase order fields and the item fields at the top level of the body. The
  responses of the Flask server contain a \<^verbatim>\<open>filename\<close> field.
\<close>

theorem upload_response_fields:
  "(upload_invoice stamp today req fs = Inr (res, fs') \<and> status res = 200 \<longrightarrow>
      has_key ''filename'' (body res) \<and> invoice_response_shape (body res)) \<and>
   (upload_po stamp today req fs = Inr (res, fs') \<and> status res = 200 \<longrightarrow>
      has_key ''filename'' (body res) \<and> holds_po_schema (body res)) \<and>
   (str_in ''/upload/invoice'' path \<longrightarrow>
      (\<exists>r d. do_POST path wfile = wfile @ [r] \<and> status r = 200 \<and>
          get ''data'' (body r) = Some d \<and> holds_invoice_schema d)) \<and>
   (\<not> str_in ''/upload/invoice'' path \<and> str_in ''/upload/po'' path \<longrightarrow>
      (\<exists>r. do_POST path wfile = wfile @ [r] \<and> status r = 200 \<and> holds_po_schema (body r)))"
proof -
  have "upload_invoice stamp today req fs = Inr (res, fs') \<and> status res = 200 \<longrightarrow>
      has_key ''filename'' (body res) \<and> invoice_response_shape (body res)"
    using upload_invoice_200 [of stamp today req fs res fs'] flask_invoice_shape
    by (auto simp add: invoice_response_shape_def)
  moreover have "upload_po stamp today req fs = Inr (res, fs') \<and> status res = 200 \<longrightarrow>
      has_key ''filename'' (body res) \<and> holds_po_schema (body res)"
    using upload_po_200 [of stamp today req fs res fs'] flask_po_fields by auto
  moreover have "str_in ''/upload/invoice'' path \<longrightarrow>
      (\<exists>r d. do_POST path wfile = wfile @ [r] \<and> status r = 200 \<and>
          get ''data'' (body r) = Some d \<and> holds_invoice_schema d)"
    by (simp add: do_POST_def send_json_response_def mock_invoice_payload_def
          holds_invoice_schema_def holds_fields_def invoice_schema_fields_def
          invoice_item_fields_def)
  moreover have "\<not> str_in ''/upload/invoice'' path \<and> str_in ''/upload/po'' path \<longrightarrow>
      (\<exists>r. do_POST path wfile = wfile @ [r] \<and> status r = 200 \<and> holds_po_schema (body r))"
    by (simp add: do_POST_def send_json_response_def mock_po_payload_def
          holds_po_schema_def holds_fields_def po_schema_fields_def po_item_fields_def)
  ultimately show ?thesis by blast
qed

theorem upload_response_fields_witness:
  "(\<exists>res fs'. upload_invoice ''20260129_101500'' ''2026-01-29''
        \<lparr>content_length = 2048, files = [(''file'', ''invoice.pdf'')]\<rparr> fresh_file_system
          = Inr (res, fs') \<and> status res = 200 \<and> invoice_response_shape (body res)) \<and>
   (\<exists>res fs'. upload_po ''20260129_101500'' ''2026-01-29''
        \<lparr>content_length = 2048, files = [(''file'', ''po.pdf'')]\<rparr> fresh_file_system
          = Inr (res, fs') \<and> status res = 200 \<and>
        has_key ''filename'' (body res) \<and> holds_po_schema (body res)) \<and>
   (\<exists>r d. do_POST ''/upload/invoice'' [] = [r] \<and> status r = 200 \<and>
       get ''data'' (body r) = Some d \<and> holds_invoice_schema d) \<and>
   (\<exists>r. do_POST ''/upload/po'' [] = [r] \<and> status r = 200 \<and> holds_po_schema (body r))"
proof -
  have "\<exists>res fs'. upload_invoice ''20260129_101500'' ''2026-01-29''
        \<lparr>content_length = 2048, files = [(''file'', ''invoice.pdf'')]\<rparr> fresh_file_system
          = Inr (res, fs') \<and> status res = 200"
    by (simp add: upload_defs fresh_defs)
  then obtain ri fi where
    a: "upload_invoice ''20260129_101500'' ''2026-01-29''
        \<lparr>content_length = 2048, files = [(''file'', ''invoice.pdf'')]\<rparr> fresh_file_system
          = Inr (ri, fi)" "status ri = 200"
    by blast
  have "\<exists>res fs'. upload_po ''20260129_101500'' ''2026-01-29''
        \<lparr>content_length = 2048, files = [(''file'', ''po.pdf'')]\<rparr> fresh_file_system
          = Inr (res, fs') \<and> status res = 200"
    by (simp add: upload_defs fresh_defs)
  then obtain rp fp where
    b: "upload_po ''20260129_101500'' ''2026-01-29''
        \<lparr>content_length = 2048, files = [(''file'', ''po.pdf'')]\<rparr> fresh_file_system
          = Inr (rp, fp)" "status rp = 200"
    by blast
  have c: "str_in ''/upload/invoice'' ''/upload/invoice''" by simp
  have d: "\<not> str_in ''/upload/invoice'' ''/upload/po'' \<and> str_in ''/upload/po'' ''/upload/po''"
    by simp
  from a c
    upload_response_fields [of "''20260129_101500''" "''2026-01-29''"
       "\<lparr>content_length = 2048, files = [(''file'', ''invoice.pdf'')]\<rparr>" fresh_file_system
       ri fi "''/upload/invoice''" "[]"]
  have 1: "invoice_response_shape (body ri)"
    and 3: "\<exists>r d. do_POST ''/upload/invoice'' [] = [r] \<and> status r = 200 \<and>
       get ''data'' (body r) = Some d \<and> holds_invoice_schema d"
    by auto
  from b d
    upload_response_fields [of "''20260129_101500''" "''2026-01-29''"
       "\<lparr>content_length = 2048, files = [(''file'', ''po.pdf'')]\<rparr>" fresh_file_system
       rp fp "''/upload/po''" "[]"]
  have 2: "has_key ''filename'' (body rp) \<and> holds_po_schema (body rp)"
    and 4: "\<exists>r. do_POST ''/upload/po'' [] = [r] \<and> status r = 200 \<and> holds_po_schema (body r)"
    by auto
  from a b 1 2 3 4 show ?thesis by blast
qed

section \<open>Claims about the form contract of the front end\<close>

text \<open>
  Claim C7. For every file selection whose file is not a PDF, such as a \<^verbatim>\<open>.txt\<close> or an
  \<^verbatim>\<open>.xlsx\<close> file, the upload is rejected: the lifecycle state remains \<open>Empty\<close>, no
  transition to \<open>Uploading\<close> occurs, and the surfaced error message is exactly
  "Please select a valid PDF file".
\<close>

theorem non_pdf_selection_rejected:
  "\<not> is_pdf f \<Longrightarrow>
     select_file is_pdf Empty f = (Empty, Some ''Please select a valid PDF file'') \<and>
     fst (select_file is_pdf Empty f) \<noteq> Uploading"
  by simp

theorem non_pdf_selection_rejected_witness:
  "\<not> pdf_by_extension \<lparr>file_name = ''invalid.txt'', mime_type = ''text/plain''\<rparr> \<and>
   select_file pdf_by_extension Empty \<lparr>file_name = ''invalid.txt'', mime_type = ''text/plain''\<rparr>
     = (Empty, Some ''Please select a valid PDF file'') \<and>
   \<not> pdf_by_extension \<lparr>file_name = ''invalid.xlsx'',
        mime_type = ''application/vnd.openxmlformats-officedocument.spreadsheetml.sheet''\<rparr> \<and>
   select_file pdf_by_extension Empty \<lparr>file_name = ''invalid.xlsx'',
        mime_type = ''application/vnd.openxmlformats-officedocument.spreadsheetml.sheet''\<rparr>
     = (Empty, Some ''Please select a valid PDF file'')"
proof -
  have a: "\<not> pdf_by_extension \<lparr>file_name = ''invalid.txt'', mime_type = ''text/plain''\<rparr>"
    by (simp add: pdf_by_extension_def endswith_def)
  have b: "\<not> pdf_by_extension \<lparr>file_name = ''invalid.xlsx'',
        mime_type = ''application/vnd.openxmlformats-officedocument.spreadsheetml.sheet''\<rparr>"
    by (simp add: pdf_by_extension_def endswith_def)
  from a b
    non_pdf_selection_rejected [of pdf_by_extension "\<lparr>file_name = ''invalid.txt'', mime_type = ''text/plain''\<rparr>"]
    non_pdf_selection_rejected [of pdf_by_extension "\<lparr>file_name = ''invalid.xlsx'',
        mime_type = ''application/vnd.openxmlformats-officedocument.spreadsheetml.sheet''\<rparr>"]
  show ?thesis by blast
qed

text \<open>
  Claim C8 does not hold as stated for every invoice whose first item has a quantity that
  is not positive: the company rule comes first in the priority order, so such an invoice
  with an empty company name yields the company error, not the item error.
\<close>

theorem item_error_counterexample:
  "kind \<lparr>kind = Invoice, company_name = [], counterparty_name = ''Test Customer'',
          order_date = 0, delivery_date = None,
          items = [\<lparr>description = ''Test Item 1'', quantity = 0, unit_price = 100\<rparr>]\<rparr> = Invoice \<and>
   quantity (hd (items \<lparr>kind = Invoice, company_name = [], counterparty_name = ''Test Customer'',
          order_date = 0, delivery_date = None,
          items = [\<lparr>description = ''Test Item 1'', quantity = 0, unit_price = 100\<rparr>]\<rparr>)) \<le> 0 \<and>
   surfaced_error \<lparr>kind = Invoice, company_name = [], counterparty_name = ''Test Customer'',
          order_date = 0, delivery_date = None,
          items = [\<lparr>description = ''Test Item 1'', quantity = 0, unit_price = 100\<rparr>]\<rparr>
     \<noteq> Some ''Item 1: Quantity must be greater than zero''"
  by (simp add: surfaced_error_def validate_def)

text \<open>
  Claim C8, as it holds of the validator. Validation returns a single first-violation
  error in fixed priority order: for every document that violates both the
  company-required rule and the counterparty-required rule the result is the company
  error, for an invoice exactly "Please specify a company before creating the invoice.";
  a purchase order with an empty supplier and a non-empty company yields exactly
  "Supplier name is required"; an invoice with a non-empty company and a non-empty
  customer whose first item has a quantity of zero or less yields exactly
  "Item 1: Quantity must be greater than zero".
\<close>

theorem validate_priority:
  "(company_name d = [] \<and> counterparty_name d = [] \<longrightarrow>
      validate d = Invalid CompanyRequired \<and>
      (kind d = Invoice \<longrightarrow>
         surfaced_error d = Some ''Please specify a company before creating the invoice.'')) \<and>
   (kind d = PurchaseOrder \<and> counterparty_name d = [] \<and> company_name d \<noteq> [] \<longrightarrow>
      surfaced_error d = Some ''Supplier name is required'') \<and>
   (kind d = Invoice \<and> company_name d \<noteq> [] \<and> counterparty_name d \<noteq> [] \<and>
    items d \<noteq> [] \<and> quantity (hd (items d)) \<le> 0 \<longrightarrow>
      surfaced_error d = Some ''Item 1: Quantity must be greater than zero'')"
  by (cases "items d") (auto simp add: surfaced_error_def validate_def)

theorem validate_priority_witness:
  "surfaced_error \<lparr>kind = Invoice, company_name = [], counterparty_name = [],
          order_date = 0, delivery_date = None,
          items = [\<lparr>description = ''Test Item 1'', quantity = 2, unit_price = 100\<rparr>]\<rparr>
     = Some ''Please specify a company before creating the invoice.'' \<and>
   surfaced_error \<lparr>kind = PurchaseOrder, company_name = ''My Company'', counterparty_name = [],
          order_date = 0, delivery_date = Some 17,
          items = [\<lparr>description = ''Steel Rod'', quantity = 10, unit_price = 25\<rparr>]\<rparr>
     = Some ''Supplier name is required'' \<and>
   surfaced_error \<lparr>kind = Invoice, company_name = ''DEMO'', counterparty_name = ''Test Customer'',
          order_date = 0, delivery_date = None,
          items = [\<lparr>description = ''Test Item 1'', quantity = - 1, unit_price = 100\<rparr>]\<rparr>
     = Some ''Item 1: Quantity must be greater than zero''"
  using validate_priority [of "\<lparr>kind = Invoice, company_name = [], counterparty_name = [],
          order_date = 0, delivery_date = None,
          items = [\<lparr>description = ''Test Item 1'', quantity = 2, unit_price = 100\<rparr>]\<rparr>"]
        validate_priority [of "\<lparr>kind = PurchaseOrder, company_name = ''My Company'', counterparty_name = [],
          order_date = 0, delivery_date = Some 17,
          items = [\<lparr>description = ''Steel Rod'', quantity = 10, unit_price = 25\<rparr>]\<rparr>"]
        validate_priority [of "\<lparr>kind = Invoice, company_name = ''DEMO'', counterparty_name = ''Test Customer'',
          order_date = 0, delivery_date = None,
          items = [\<lparr>description = ''Test Item 1'', quantity = - 1, unit_price = 100\<rparr>]\<rparr>"]
  by simp

text \<open>
  Claim C9. For every submission response that is an error whose text contains
  "currency", the outcome resolver gives \<open>Warning\<close>, not \<open>Error\<close>; for every other error
  text the outcome is \<open>Error\<close>, whatever success signals (a reference number, docstatus 1)
  come with it. The three outcome classes are mutually exclusive and exactly one is
  produced for each response.
\<close>

theorem resolve_outcome_classes:
  "(error_text r = Some e \<and> str_in ''currency'' e \<longrightarrow>
      resolve_outcome k r = Warning \<and> resolve_outcome k r \<noteq> Error) \<and>
   (error_text r = Some e \<and> \<not> str_in ''currency'' e \<longrightarrow> resolve_outcome k r = Error) \<and>
   ((resolve_outcome k r = Success \<and> resolve_outcome k r \<noteq> Warning \<and> resolve_outcome k r \<noteq> Error) \<or>
    (resolve_outcome k r = Warning \<and> resolve_outcome k r \<noteq> Success \<and> resolve_outcome k r \<noteq> Error) \<or>
    (resolve_outcome k r = Error \<and> resolve_outcome k r \<noteq> Success \<and> resolve_outcome k r \<noteq> Warning))"
  by (cases "resolve_outcome k r") (auto simp add: resolve_outcome_def)

theorem resolve_outcome_classes_witness:
  "resolve_outcome Invoice \<lparr>error_text = Some ''Invalid currency for the party account'',
       reference = Some ''SINV-2026-00001'', docstatus = Some 1\<rparr> = Warning \<and>
   resolve_outcome Invoice \<lparr>error_text = Some ''Customer not found'',
       reference = Some ''SINV-2026-00001'', docstatus = Some 1\<rparr> = Error"
  using resolve_outcome_classes [of "\<lparr>error_text = Some ''Invalid currency for the party account'',
       reference = Some ''SINV-2026-00001'', docstatus = Some 1\<rparr>"
       "''Invalid currency for the party account''" Invoice]
     resolve_outcome_classes [of "\<lparr>error_text = Some ''Customer not found'',
       reference = Some ''SINV-2026-00001'', docstatus = Some 1\<rparr>"
       "''Customer not found''" Invoice]
  by simp

end
